theory Spec2Isabelle
  imports Complex_Main
begin

section \<open>Behavior rules engine (services/ai/app/behavior.py)\<close>

text \<open>
  The three dataclasses of \<^verbatim>\<open>behavior.py\<close>. Python floats are modelled as reals
  (finite values, exact arithmetic); the integer windows of the configuration are ints.
  The state strings \<^verbatim>\<open>"active"\<close>, \<^verbatim>\<open>"idle"\<close>, \<^verbatim>\<open>"away"\<close> stay strings.
\<close>

record BehaviorConfig =
  active_confirm_seconds :: int
  idle_seconds :: int
  away_seconds :: int

record BehaviorSignals =
  face_present :: bool
  motion_value :: real
  motion_threshold :: real

record BehaviorState =
  last_state :: "string option"
  face_present_since :: "real option"
  no_face_since :: "real option"
  motion_active_since :: "real option"
  no_motion_since :: "real option"

text \<open>\<^verbatim>\<open>BehaviorState()\<close>: every field defaults to \<^verbatim>\<open>None\<close>.\<close>

definition BehaviorState_init :: BehaviorState where
  "BehaviorState_init =
     \<lparr>last_state = None, face_present_since = None, no_face_since = None,
      motion_active_since = None, no_motion_since = None\<rparr>"

text \<open>
  \<^verbatim>\<open>_since(now_ts, since_ts)\<close>: 0.0 when the tracker is unset, otherwise the elapsed
  time clamped at 0.
\<close>

definition since_elapsed :: "real \<Rightarrow> real option \<Rightarrow> real" where
  "since_elapsed now_ts since_ts =
     (case since_ts of None \<Rightarrow> 0 | Some s \<Rightarrow> max 0 (now_ts - s))"

text \<open>
  \<^verbatim>\<open>since_ts or now_ts\<close> on an optional float. Python's \<^verbatim>\<open>or\<close> yields its right
  operand when the left one is falsy, and both \<^verbatim>\<open>None\<close> and \<^verbatim>\<open>0.0\<close> are falsy.
\<close>

definition or_now :: "real option \<Rightarrow> real \<Rightarrow> real" where
  "or_now since_ts now_ts =
     (case since_ts of None \<Rightarrow> now_ts | Some s \<Rightarrow> if s = 0 then now_ts else s)"

definition motion_active :: "BehaviorSignals \<Rightarrow> bool" where
  "motion_active sig \<longleftrightarrow> motion_value sig \<ge> motion_threshold sig"

text \<open>Lines 51 to 67 of \<^verbatim>\<open>update_behavior_state\<close>: the four trackers.\<close>

definition update_trackers :: "BehaviorState \<Rightarrow> BehaviorSignals \<Rightarrow> real \<Rightarrow> BehaviorState" where
  "update_trackers st sig now_ts =
     (if face_present sig then
        (let st1 = st\<lparr>no_face_since := None,
                      face_present_since := Some (or_now (face_present_since st) now_ts)\<rparr>
         in if motion_active sig then
              st1\<lparr>no_motion_since := None,
                  motion_active_since := Some (or_now (motion_active_since st1) now_ts)\<rparr>
            else
              st1\<lparr>motion_active_since := None,
                  no_motion_since := Some (or_now (no_motion_since st1) now_ts)\<rparr>)
      else
        st\<lparr>face_present_since := None,
           no_face_since := Some (or_now (no_face_since st) now_ts),
           motion_active_since := None,
           no_motion_since := None\<rparr>)"

text \<open>
  Lines 69 to 103: the rule chain, first match wins. The function returns the emitted
  state together with the mutated \<^verbatim>\<open>BehaviorState\<close>. The stickiness branch (line 86)
  returns without writing \<^verbatim>\<open>last_state\<close>.
\<close>

definition decide :: "BehaviorConfig \<Rightarrow> BehaviorState \<Rightarrow> BehaviorSignals \<Rightarrow> real
    \<Rightarrow> string \<times> BehaviorState" where
  "decide cfg st sig now_ts =
     (let no_face_s = since_elapsed now_ts (no_face_since st);
          no_motion_s = since_elapsed now_ts (no_motion_since st);
          motion_active_s = since_elapsed now_ts (motion_active_since st)
      in if no_face_s \<ge> real_of_int (away_seconds cfg) then
           (''away'', st\<lparr>last_state := Some ''away''\<rparr>)
         else if face_present sig \<and> no_motion_s \<ge> real_of_int (idle_seconds cfg) then
           (''idle'', st\<lparr>last_state := Some ''idle''\<rparr>)
         else if face_present sig \<and> motion_active_s \<ge> real_of_int (active_confirm_seconds cfg) then
           (''active'', st\<lparr>last_state := Some ''active''\<rparr>)
         else if (last_state st = Some ''active'' \<or> last_state st = Some ''idle'')
                 \<and> face_present sig then
           (case last_state st of Some s \<Rightarrow> (s, st) | None \<Rightarrow> (''away'', st))
         else if last_state st = Some ''away'' \<and> face_present sig then
           (if motion_active sig then (''active'', st\<lparr>last_state := Some ''active''\<rparr>)
            else (''idle'', st\<lparr>last_state := Some ''idle''\<rparr>))
         else if face_present sig then
           (let s = (if motion_active sig then ''active'' else ''idle'')
            in (s, st\<lparr>last_state := Some s\<rparr>))
         else
           (''away'', st\<lparr>last_state := Some ''away''\<rparr>))"

definition update_behavior_state :: "BehaviorConfig \<Rightarrow> BehaviorState \<Rightarrow> BehaviorSignals \<Rightarrow> real
    \<Rightarrow> string \<times> BehaviorState" where
  "update_behavior_state cfg st sig now_ts = decide cfg (update_trackers st sig now_ts) sig now_ts"

text \<open>The elapsed durations of line 69 to 71, as the tick computes them.\<close>

definition no_face_elapsed :: "BehaviorState \<Rightarrow> BehaviorSignals \<Rightarrow> real \<Rightarrow> real" where
  "no_face_elapsed st sig now_ts = since_elapsed now_ts (no_face_since (update_trackers st sig now_ts))"

definition no_motion_elapsed :: "BehaviorState \<Rightarrow> BehaviorSignals \<Rightarrow> real \<Rightarrow> real" where
  "no_motion_elapsed st sig now_ts = since_elapsed now_ts (no_motion_since (update_trackers st sig now_ts))"

definition motion_active_elapsed :: "BehaviorState \<Rightarrow> BehaviorSignals \<Rightarrow> real \<Rightarrow> real" where
  "motion_active_elapsed st sig now_ts =
     since_elapsed now_ts (motion_active_since (update_trackers st sig now_ts))"

section \<open>Per-subject motion tracking (services/ai/app/ingest.py)\<close>

text \<open>
  \<^verbatim>\<open>SubjectState\<close> of \<^verbatim>\<open>ingest.py\<close>, with the fields the frame loop keeps per subject.
  Floats are reals, as above.
\<close>

record SubjectState =
  last_status :: "string option"
  last_sent_ts :: real
  last_seen_ts :: real
  last_center :: "(real \<times> real) option"
  motion_ema :: real
  behavior :: BehaviorState
  last_pose :: "string option"
  last_pose_conf :: real

text \<open>\<^verbatim>\<open>SubjectState()\<close>: the dataclass defaults.\<close>

definition SubjectState_init :: SubjectState where
  "SubjectState_init =
     \<lparr>last_status = None, last_sent_ts = 0, last_seen_ts = 0, last_center = None,
      motion_ema = 0, behavior = BehaviorState_init, last_pose = None, last_pose_conf = 0\<rparr>"

text \<open>
  Lines 362 to 367 of the frame loop (motion estimation from the bounding-box centre):
  \<^verbatim>\<open>prev = st.last_center\<close>; when \<^verbatim>\<open>prev is not None\<close> the sample is
  \<^verbatim>\<open>((center[0]-prev[0])**2 + (center[1]-prev[1])**2) ** 0.5\<close> and
  \<^verbatim>\<open>st.motion_ema = 0.7 * st.motion_ema + 0.3 * motion\<close>; then
  \<^verbatim>\<open>st.last_center = center\<close> in every case.
\<close>

definition center_distance :: "real \<times> real \<Rightarrow> real \<times> real \<Rightarrow> real" where
  "center_distance center prev = sqrt ((fst center - fst prev)\<^sup>2 + (snd center - snd prev)\<^sup>2)"

definition update_motion_ema :: "SubjectState \<Rightarrow> real \<times> real \<Rightarrow> SubjectState" where
  "update_motion_ema st center =
     (let st1 = (case last_center st of
                   None \<Rightarrow> st
                 | Some prev \<Rightarrow>
                     st\<lparr>motion_ema := 0.7 * motion_ema st + 0.3 * center_distance center prev\<rparr>)
      in st1\<lparr>last_center := Some center\<rparr>)"


section \<open>Zone compliance engine (services/api/app/services/compliance_engine.py)\<close>

text \<open>
  A \<^verbatim>\<open>datetime\<close> is modelled as its number of microseconds since the epoch (UTC), the
  resolution of Python's \<^verbatim>\<open>datetime\<close>. \<^verbatim>\<open>isoformat()\<close> renders such a value
  one-to-one, so the emitted \<^verbatim>\<open>since\<close> and \<^verbatim>\<open>ts\<close> strings are modelled by the
  values themselves.
\<close>

type_synonym datetime = int

record ZoneState =
  state :: string
  since :: datetime
  last_seen :: "datetime option"

text \<open>
  The policy document returned by \<^verbatim>\<open>_load_model()\<close> (YAML): three collections. A key
  read with \<^verbatim>\<open>.get(key, default)\<close> is an optional field; a key read with
  \<^verbatim>\<open>[key]\<close> is a plain field.
\<close>

record RoleDef =
  role_id :: string
  permissions :: "string list"

record ZoneDef =
  zone_id :: string
  ztype :: "string option"
  camera_ids :: "string list"

record RoleLimits =
  min_count :: "int option"
  max_count :: "int option"

record Regulation =
  zone_type :: string
  regulation_id :: "string option"
  required_roles :: "(string \<times> RoleLimits) list"
  forbidden_roles :: "string list"
  allowed_absence_seconds :: "int option"
  violation_escalation_seconds :: "string \<rightharpoonup> int"
  severity :: "string option"

record ComplianceModel =
  roles :: "RoleDef list"
  zones :: "ZoneDef list"
  regulations :: "Regulation list"

text \<open>
  One element of the list returned by \<^verbatim>\<open>get_current_presence\<close>, with the three keys
  the engine reads. The payload values are the strings \<^verbatim>\<open>str(...)\<close> gives; a falsy
  value is the empty string.
\<close>

record PresenceRecord =
  source_id :: "string option"
  payload :: "(string \<rightharpoonup> string) option"
  last_seen_ts :: "datetime option"

text \<open>The dictionaries of the zone report and of \<^verbatim>\<open>_event_payload\<close>.\<close>

record ZoneOut =
  out_zone_id :: string
  out_regulation_id :: "string option"
  out_state :: string
  out_violations :: "string list"
  out_since :: datetime
  out_severity :: string

record Event =
  event_type :: string
  ev_zone_id :: string
  ev_regulation_id :: "string option"
  ev_state :: string
  ev_violations :: "string list"
  ev_since :: datetime
  ev_severity :: string
  ev_ts :: datetime
  version :: string

definition event_payload :: "string \<Rightarrow> string option \<Rightarrow> string \<Rightarrow> string list \<Rightarrow> datetime
    \<Rightarrow> string \<Rightarrow> datetime \<Rightarrow> Event" where
  "event_payload zid rid st violations since_ts sev ts =
     \<lparr>event_type = ''compliance.zone'', ev_zone_id = zid, ev_regulation_id = rid, ev_state = st,
      ev_violations = violations, ev_since = since_ts, ev_severity = sev, ev_ts = ts,
      version = ''1.0''\<rparr>"

text \<open>
  \<^verbatim>\<open>_role_from_payload\<close>: the first of the keys \<^verbatim>\<open>role\<close>, \<^verbatim>\<open>staff_role\<close>,
  \<^verbatim>\<open>entity_role\<close> whose value is truthy.
\<close>

fun first_truthy :: "(string \<rightharpoonup> string) \<Rightarrow> string list \<Rightarrow> string option" where
  "first_truthy d [] = None"
| "first_truthy d (k # ks) =
     (case d k of
        None \<Rightarrow> first_truthy d ks
      | Some v \<Rightarrow> if v \<noteq> [] then Some v else first_truthy d ks)"

definition role_from_payload :: "(string \<rightharpoonup> string) option \<Rightarrow> string option" where
  "role_from_payload p =
     (case p of
        None \<Rightarrow> None
      | Some d \<Rightarrow> first_truthy d [''role'', ''staff_role'', ''entity_role''])"

text \<open>
  The dictionary comprehensions of lines 68 and 70 and the camera table of lines 73 to 76:
  a later entry with the same key replaces an earlier one.
\<close>

definition roles_by_id :: "ComplianceModel \<Rightarrow> (string \<rightharpoonup> RoleDef)" where
  "roles_by_id model = fold (\<lambda>r m. m(role_id r \<mapsto> r)) (roles model) Map.empty"

definition regulations_by_type :: "ComplianceModel \<Rightarrow> (string \<rightharpoonup> Regulation)" where
  "regulations_by_type model = fold (\<lambda>r m. m(zone_type r \<mapsto> r)) (regulations model) Map.empty"

definition camera_to_zone :: "ComplianceModel \<Rightarrow> (string \<rightharpoonup> string)" where
  "camera_to_zone model =
     fold (\<lambda>z m. fold (\<lambda>cam m'. m'(cam \<mapsto> zone_id z)) (camera_ids z) m) (zones model) Map.empty"

text \<open>
  Lines 86 to 97: the role counts and the last-seen timestamp per zone. A role-count
  dictionary keeps insertion order, so it is an association list; both per-zone tables are
  total functions whose value at a zone that received no record is the initial one
  (\<^verbatim>\<open>{}\<close> and \<^verbatim>\<open>None\<close>). Only zone ids of the policy are ever looked up.
\<close>

fun incr_role :: "string \<Rightarrow> (string \<times> int) list \<Rightarrow> (string \<times> int) list" where
  "incr_role r [] = [(r, 1)]"
| "incr_role r ((k, n) # cs) = (if k = r then (k, n + 1) # cs else (k, n) # incr_role r cs)"

type_synonym tally = "(string \<Rightarrow> (string \<times> int) list) \<times> (string \<Rightarrow> datetime option)"

definition tally_record :: "(string \<rightharpoonup> string) \<Rightarrow> PresenceRecord \<Rightarrow> tally \<Rightarrow> tally" where
  "tally_record cam_zone p acc =
     (let sid = (case source_id p of None \<Rightarrow> [] | Some s \<Rightarrow> s)
      in case cam_zone sid of
           None \<Rightarrow> acc
         | Some zid \<Rightarrow>
             if zid = [] then acc
             else
               (let role = (case role_from_payload (payload p) of
                              None \<Rightarrow> ''unknown'' | Some r \<Rightarrow> r)
                in ((fst acc)(zid := incr_role role (fst acc zid)),
                    (snd acc)(zid := last_seen_ts p))))"

definition tally_presence :: "ComplianceModel \<Rightarrow> PresenceRecord list \<Rightarrow> tally" where
  "tally_presence model presence =
     fold (tally_record (camera_to_zone model)) presence (\<lambda>_. [], \<lambda>_. None)"

definition zone_counts :: "ComplianceModel \<Rightarrow> PresenceRecord list \<Rightarrow> string \<Rightarrow> (string \<times> int) list" where
  "zone_counts model presence = fst (tally_presence model presence)"

definition zone_last_seen :: "ComplianceModel \<Rightarrow> PresenceRecord list \<Rightarrow> string \<Rightarrow> datetime option" where
  "zone_last_seen model presence = snd (tally_presence model presence)"

text \<open>Lines 174 to 185: the violations one present role contributes.\<close>

definition role_violations :: "(string \<rightharpoonup> RoleDef) \<Rightarrow> string list \<Rightarrow> string option \<Rightarrow> string
    \<Rightarrow> string list" where
  "role_violations role_tab forbidden zt rid =
     (if rid \<in> set forbidden then [''forbidden:'' @ rid] else [])
     @ (case role_tab rid of
          Some r \<Rightarrow>
            (if (case zt of None \<Rightarrow> True | Some t \<Rightarrow> t \<notin> set (permissions r))
             then [''unauthorized:'' @ rid] else [])
        | None \<Rightarrow>
            (if rid \<noteq> ''unknown'' then [''unauthorized:'' @ rid]
             else [''unauthorized:unknown'']))"

text \<open>Lines 187 to 197: one required role; the accumulator is (violations, computed state).\<close>

definition required_step :: "(string \<times> int) list \<Rightarrow> string \<times> RoleLimits \<Rightarrow> string list \<times> string
    \<Rightarrow> string list \<times> string" where
  "required_step counts rc acc =
     (let rid = fst rc;
          cnt = (case map_of counts rid of None \<Rightarrow> 0 | Some n \<Rightarrow> n);
          min_req = (case min_count (snd rc) of None \<Rightarrow> 0 | Some m \<Rightarrow> m);
          max_req = (case max_count (snd rc) of None \<Rightarrow> 999 | Some m \<Rightarrow> m);
          acc1 = (if cnt < min_req then (fst acc @ [''missing:'' @ rid], ''UNDERSTAFFED'') else acc);
          acc2 = (if cnt > max_req then (fst acc1 @ [''over:'' @ rid], ''OVERSTAFFED'') else acc1)
      in acc2)"

definition startswith :: "string \<Rightarrow> string \<Rightarrow> bool" where
  "startswith s p \<longleftrightarrow> take (length p) s = p"

text \<open>Lines 139 to 203: the violations list and the computed state before hysteresis.\<close>

definition compute_violations :: "(string \<rightharpoonup> RoleDef) \<Rightarrow> Regulation \<Rightarrow> string option
    \<Rightarrow> (string \<times> int) list \<Rightarrow> string list \<times> string" where
  "compute_violations role_tab reg zt counts =
     (let v0 = concat (map (role_violations role_tab (forbidden_roles reg) zt) (map fst counts));
          acc = fold (required_step counts) (required_roles reg) (v0, ''COMPLIANT'');
          violations = fst acc;
          s1 = (if list_ex (\<lambda>v. startswith v ''forbidden'' \<or> startswith v ''unauthorized'') violations
                then ''UNAUTHORIZED_PERSON'' else snd acc);
          s2 = (if violations = [] then ''COMPLIANT'' else s1)
      in (violations, s2))"

text \<open>
  Lines 208 to 216: escalation. \<^verbatim>\<open>(now - state_since).total_seconds() > threshold\<close>
  compares a duration of whole microseconds with a whole number of seconds; the quotient
  \<^verbatim>\<open>total_seconds()\<close> returns is taken as exact.
\<close>

definition escalation_threshold :: "Regulation \<Rightarrow> string \<Rightarrow> int \<Rightarrow> int" where
  "escalation_threshold reg kind dflt =
     (case violation_escalation_seconds reg kind of None \<Rightarrow> dflt | Some t \<Rightarrow> t)"

definition escalate :: "Regulation \<Rightarrow> string \<Rightarrow> datetime \<Rightarrow> datetime \<Rightarrow> string" where
  "escalate reg computed_state now state_since =
     (let s1 = (if computed_state = ''UNDERSTAFFED'' \<or> computed_state = ''OVERSTAFFED'' then
                  (if now - state_since > escalation_threshold reg ''understaffed'' 120 * 1000000
                   then ''CRITICAL_VIOLATION'' else computed_state)
                else computed_state);
          s2 = (if s1 = ''UNAUTHORIZED_PERSON'' then
                  (if now - state_since > escalation_threshold reg ''unauthorized'' 60 * 1000000
                   then ''CRITICAL_VIOLATION'' else s1)
                else s1)
      in s2)"

text \<open>
  Line 206: \<^verbatim>\<open>prev.since if prev and prev.state == computed_state else now\<close>.
\<close>

definition hysteresis_since :: "ZoneState option \<Rightarrow> string \<Rightarrow> datetime \<Rightarrow> datetime" where
  "hysteresis_since prev computed_state now =
     (case prev of
        None \<Rightarrow> now
      | Some pz \<Rightarrow> if state pz = computed_state then since pz else now)"

text \<open>
  The body of the loop over the zones (lines 102 to 240) for one zone: the report, the
  event and the state cache after the zone. \<^verbatim>\<open>_STATE_CACHE\<close> is passed in and
  returned.
\<close>

type_synonym state_cache = "string \<rightharpoonup> ZoneState"

definition zone_result :: "string \<Rightarrow> string option \<Rightarrow> string \<Rightarrow> string list \<Rightarrow> datetime \<Rightarrow> string
    \<Rightarrow> datetime \<Rightarrow> ZoneOut \<times> Event" where
  "zone_result zid rid st violations since_ts sev now =
     (\<lparr>out_zone_id = zid, out_regulation_id = rid, out_state = st, out_violations = violations,
       out_since = since_ts, out_severity = sev\<rparr>,
      event_payload zid rid st violations since_ts sev now)"

definition evaluate_zone :: "(string \<rightharpoonup> RoleDef) \<Rightarrow> (string \<rightharpoonup> Regulation) \<Rightarrow> tally \<Rightarrow> datetime
    \<Rightarrow> ZoneDef \<Rightarrow> state_cache \<Rightarrow> (ZoneOut \<times> Event) \<times> state_cache" where
  "evaluate_zone role_tab reg_tab tal now z cache =
     (let zid = zone_id z;
          regulation = (case ztype z of None \<Rightarrow> None | Some t \<Rightarrow> reg_tab t)
      in case regulation of
           None \<Rightarrow>
             (zone_result zid None ''UNKNOWN'' [''no_regulation''] now ''info'' now, cache)
         | Some reg \<Rightarrow>
             (let rid = regulation_id reg;
                  sev = (case severity reg of None \<Rightarrow> ''high'' | Some s \<Rightarrow> s);
                  prev = cache zid
              in case snd tal zid of
                   None \<Rightarrow>
                     (let computed_state = (case prev of None \<Rightarrow> ''INITIALIZING''
                                            | Some _ \<Rightarrow> ''UNKNOWN'');
                          state_since = (case prev of None \<Rightarrow> now | Some pz \<Rightarrow> since pz)
                      in (zone_result zid rid computed_state [] state_since ''info'' now,
                          cache(zid \<mapsto> \<lparr>state = computed_state, since = state_since,
                                         last_seen = None\<rparr>)))
                 | Some seen \<Rightarrow>
                     (let cv = compute_violations role_tab reg (ztype z) (fst tal zid);
                          violations = fst cv;
                          computed_state = snd cv;
                          state_since = hysteresis_since prev computed_state now;
                          final_state = escalate reg computed_state now state_since
                      in (zone_result zid rid final_state violations state_since sev now,
                          cache(zid \<mapsto> \<lparr>state = final_state, since = state_since,
                                         last_seen = Some seen\<rparr>)))))"

text \<open>The loop over the zones, in the order of the policy, threading the cache.\<close>

fun zones_loop :: "(ZoneDef \<Rightarrow> state_cache \<Rightarrow> (ZoneOut \<times> Event) \<times> state_cache) \<Rightarrow> ZoneDef list
    \<Rightarrow> state_cache \<Rightarrow> (ZoneOut \<times> Event) list \<times> state_cache" where
  "zones_loop ev [] cache = ([], cache)"
| "zones_loop ev (z # zs) cache =
     (let r = ev z cache;
          rest = zones_loop ev zs (snd r)
      in (fst r # fst rest, snd rest))"

text \<open>
  \<^verbatim>\<open>evaluate_zone_compliance\<close>. The policy document, the presence snapshot (the list
  \<^verbatim>\<open>get_current_presence\<close> returned) and the state cache are arguments; the result is
  the pair of the \<^verbatim>\<open>zones\<close> and \<^verbatim>\<open>events\<close> lists with the cache after the call.
\<close>

definition evaluate_zone_compliance :: "ComplianceModel \<Rightarrow> PresenceRecord list \<Rightarrow> state_cache
    \<Rightarrow> datetime \<Rightarrow> (ZoneOut list \<times> Event list) \<times> state_cache" where
  "evaluate_zone_compliance model presence cache now =
     (let r = zones_loop
                (evaluate_zone (roles_by_id model) (regulations_by_type model)
                   (tally_presence model presence) now)
                (zones model) cache
      in ((map fst (fst r), map snd (fst r)), snd r))"

text \<open>Readers of a tick's result: the report of the i-th zone and the cache left behind.\<close>

definition zones_out :: "(ZoneOut list \<times> Event list) \<times> state_cache \<Rightarrow> ZoneOut list" where
  "zones_out r = fst (fst r)"

definition events_out :: "(ZoneOut list \<times> Event list) \<times> state_cache \<Rightarrow> Event list" where
  "events_out r = snd (fst r)"

definition cache_out :: "(ZoneOut list \<times> Event list) \<times> state_cache \<Rightarrow> state_cache" where
  "cache_out r = snd r"

text \<open>
  The regulation of a zone (line 105) and, for a zone with a regulation, the state computed
  from the presence snapshot before hysteresis and escalation (the value of
  \<^verbatim>\<open>computed_state\<close> at line 205).
\<close>

definition regulation_of :: "ComplianceModel \<Rightarrow> ZoneDef \<Rightarrow> Regulation option" where
  "regulation_of model z =
     (case ztype z of None \<Rightarrow> None | Some t \<Rightarrow> regulations_by_type model t)"

definition computed_state_of :: "ComplianceModel \<Rightarrow> PresenceRecord list \<Rightarrow> ZoneDef \<Rightarrow> Regulation
    \<Rightarrow> string" where
  "computed_state_of model presence z reg =
     snd (compute_violations (roles_by_id model) reg (ztype z)
            (zone_counts model presence (zone_id z)))"


text \<open>
  Lines 91 to 94: whether a presence record is counted for a zone (its source id, or the
  empty string when it has none, is in the camera table with that non-empty zone id).
\<close>

definition maps_to_zone :: "ComplianceModel \<Rightarrow> string \<Rightarrow> PresenceRecord \<Rightarrow> bool" where
  "maps_to_zone model zid p \<longleftrightarrow>
     zid \<noteq> [] \<and> camera_to_zone model (case source_id p of None \<Rightarrow> [] | Some s \<Rightarrow> s) = Some zid"


subsection \<open>Concrete configurations, states and signals\<close>

definition cfg_default :: BehaviorConfig where
  "cfg_default = \<lparr>active_confirm_seconds = 30, idle_seconds = 60, away_seconds = 120\<rparr>"

definition st_face_lost :: BehaviorState where
  "st_face_lost =
     \<lparr>last_state = Some ''active'', face_present_since = None, no_face_since = Some 1000,
      motion_active_since = None, no_motion_since = None\<rparr>"

definition sig_no_face_moving :: BehaviorSignals where
  "sig_no_face_moving = \<lparr>face_present = False, motion_value = 5, motion_threshold = 2\<rparr>"

definition st_away :: BehaviorState where
  "st_away =
     \<lparr>last_state = Some ''away'', face_present_since = None, no_face_since = Some 1000,
      motion_active_since = None, no_motion_since = None\<rparr>"

definition sig_face_moving :: BehaviorSignals where
  "sig_face_moving = \<lparr>face_present = True, motion_value = 5, motion_threshold = 2\<rparr>"

definition sig_face_still :: BehaviorSignals where
  "sig_face_still = \<lparr>face_present = True, motion_value = 1, motion_threshold = 2\<rparr>"

definition st_active_quiet :: BehaviorState where
  "st_active_quiet =
     \<lparr>last_state = Some ''active'', face_present_since = Some 1000, no_face_since = None,
      motion_active_since = None, no_motion_since = Some 1090\<rparr>"

definition st_idle_moving :: BehaviorState where
  "st_idle_moving =
     \<lparr>last_state = Some ''idle'', face_present_since = Some 1000, no_face_since = None,
      motion_active_since = Some 1090, no_motion_since = None\<rparr>"

definition st_seen_at_origin :: SubjectState where
  "st_seen_at_origin = SubjectState_init\<lparr>last_center := Some (0, 0), motion_ema := 1\<rparr>"

text \<open>
  A policy with two roles, one regulation (zone type \<^verbatim>\<open>lobby\<close>: at least one guard, at
  most two, visitors forbidden, escalation after 120 s understaffed and 60 s unauthorized)
  and three zones: \<^verbatim>\<open>dock\<close>, whose type has no regulation, and \<^verbatim>\<open>vault\<close> and
  \<^verbatim>\<open>lobby\<close> of type \<^verbatim>\<open>lobby\<close>.
\<close>

definition lobby_regulation :: Regulation where
  "lobby_regulation =
     \<lparr>zone_type = ''lobby'', regulation_id = Some ''R1'',
      required_roles = [(''guard'', \<lparr>min_count = Some 1, max_count = Some 2\<rparr>)],
      forbidden_roles = [''visitor''], allowed_absence_seconds = Some 30,
      violation_escalation_seconds = [''understaffed'' \<mapsto> 120, ''unauthorized'' \<mapsto> 60],
      severity = Some ''high''\<rparr>"

definition site_model :: ComplianceModel where
  "site_model =
     \<lparr>roles = [\<lparr>role_id = ''guard'', permissions = [''lobby'']\<rparr>,
               \<lparr>role_id = ''clerk'', permissions = [''lobby'']\<rparr>],
      zones = [\<lparr>zone_id = ''dock'', ztype = Some ''dock'', camera_ids = [''cam_dock'']\<rparr>,
               \<lparr>zone_id = ''vault'', ztype = Some ''lobby'', camera_ids = [''cam_vault'']\<rparr>,
               \<lparr>zone_id = ''lobby'', ztype = Some ''lobby'', camera_ids = [''cam_lobby'']\<rparr>],
      regulations = [lobby_regulation]\<rparr>"


text \<open>A snapshot with one clerk seen by the lobby camera at the given time.\<close>

definition clerk_in_lobby :: "datetime \<Rightarrow> PresenceRecord list" where
  "clerk_in_lobby t =
     [\<lparr>source_id = Some ''cam_lobby'', payload = Some [''role'' \<mapsto> ''clerk''],
       last_seen_ts = Some t\<rparr>]"

text \<open>
  A snapshot in the order \<^verbatim>\<open>get_current_presence\<close> returns it (most recent first): two
  subjects seen by the lobby camera, at 20 s and at 10 s.
\<close>

definition two_in_lobby :: "PresenceRecord list" where
  "two_in_lobby =
     [\<lparr>source_id = Some ''cam_lobby'', payload = None, last_seen_ts = Some 20000000\<rparr>,
      \<lparr>source_id = Some ''cam_lobby'', payload = None, last_seen_ts = Some 10000000\<rparr>]"

text \<open>
  Ticks of the engine on that policy, starting from an empty cache at time 0, each with the
  clerk seen in the lobby at the tick's time: at 120 s and at 121 s after the first tick,
  and at 131 s after the tick at 121 s.
\<close>

definition tick_0 :: "(ZoneOut list \<times> Event list) \<times> state_cache" where
  "tick_0 = evaluate_zone_compliance site_model (clerk_in_lobby 0) Map.empty 0"

definition tick_120 :: "(ZoneOut list \<times> Event list) \<times> state_cache" where
  "tick_120 =
     evaluate_zone_compliance site_model (clerk_in_lobby 120000000) (cache_out tick_0) 120000000"

definition tick_121 :: "(ZoneOut list \<times> Event list) \<times> state_cache" where
  "tick_121 =
     evaluate_zone_compliance site_model (clerk_in_lobby 121000000) (cache_out tick_0) 121000000"

definition tick_131 :: "(ZoneOut list \<times> Event list) \<times> state_cache" where
  "tick_131 =
     evaluate_zone_compliance site_model (clerk_in_lobby 131000000) (cache_out tick_121) 131000000"



section \<open>Properties of the behavior engine\<close>


lemma update_trackers_last_state:
  "last_state (update_trackers st sig now_ts) = last_state st"
  by (simp add: update_trackers_def Let_def)

text \<open>
  C1 (away dominance): on a tick whose elapsed no-face duration reaches
  \<^verbatim>\<open>away_seconds\<close>, the function returns \<^verbatim>\<open>"away"\<close> and stores it in
  \<^verbatim>\<open>last_state\<close>, whatever the configuration, the previous state and the motion signals.
\<close>

theorem away_dominance:
  assumes "no_face_elapsed st sig now_ts \<ge> real_of_int (away_seconds cfg)"
  shows "update_behavior_state cfg st sig now_ts =
           (''away'', (update_trackers st sig now_ts)\<lparr>last_state := Some ''away''\<rparr>)"
  using assms
  by (simp add: update_behavior_state_def decide_def no_face_elapsed_def Let_def)

text \<open>
  Instance: the face has been missing since t = 1000, the tick at t = 1120 with the
  default windows (30 / 60 / 120) reaches the away window exactly, the previous state was
  \<^verbatim>\<open>"active"\<close> and the motion signal is above its threshold.
\<close>

theorem away_dominance_witness:
  "no_face_elapsed st_face_lost sig_no_face_moving 1120 \<ge> real_of_int (away_seconds cfg_default)
   \<and> fst (update_behavior_state cfg_default st_face_lost sig_no_face_moving 1120) = ''away''
   \<and> last_state (snd (update_behavior_state cfg_default st_face_lost sig_no_face_moving 1120))
       = Some ''away''"
proof -
  have h: "no_face_elapsed st_face_lost sig_no_face_moving 1120
             \<ge> real_of_int (away_seconds cfg_default)"
    by (simp add: no_face_elapsed_def update_trackers_def since_elapsed_def or_now_def
        st_face_lost_def sig_no_face_moving_def cfg_default_def)
  from away_dominance [OF h] h show ?thesis by simp
qed

text \<open>
  C5 (return optimism): with positive active and idle windows, a previous state
  \<^verbatim>\<open>"away"\<close> and a tick with the face present whose elapsed no-face time is below
  \<^verbatim>\<open>away_seconds\<close>, the function returns \<^verbatim>\<open>"active"\<close> on that tick when
  \<^verbatim>\<open>motion_value >= motion_threshold\<close> and \<^verbatim>\<open>"idle"\<close> when
  \<^verbatim>\<open>motion_value < motion_threshold\<close>, and stores the returned state.
\<close>

theorem return_optimism:
  assumes "last_state st = Some ''away''"
    and "face_present sig"
    and "0 < active_confirm_seconds cfg" and "0 < idle_seconds cfg"
    and "no_face_elapsed st sig now_ts < real_of_int (away_seconds cfg)"
  shows "(motion_value sig \<ge> motion_threshold sig \<longrightarrow>
            update_behavior_state cfg st sig now_ts =
              (''active'', (update_trackers st sig now_ts)\<lparr>last_state := Some ''active''\<rparr>))
       \<and> (motion_value sig < motion_threshold sig \<longrightarrow>
            update_behavior_state cfg st sig now_ts =
              (''idle'', (update_trackers st sig now_ts)\<lparr>last_state := Some ''idle''\<rparr>))"
proof (intro conjI impI)
  assume m: "motion_value sig \<ge> motion_threshold sig"
  have nm: "no_motion_since (update_trackers st sig now_ts) = None"
    using assms(2) m by (simp add: update_trackers_def motion_active_def Let_def)
  show "update_behavior_state cfg st sig now_ts =
          (''active'', (update_trackers st sig now_ts)\<lparr>last_state := Some ''active''\<rparr>)"
    using assms m nm
    by (simp add: update_behavior_state_def decide_def no_face_elapsed_def Let_def
        update_trackers_last_state motion_active_def since_elapsed_def)
next
  assume m: "motion_value sig < motion_threshold sig"
  have ma: "motion_active_since (update_trackers st sig now_ts) = None"
    using assms(2) m by (simp add: update_trackers_def motion_active_def Let_def)
  show "update_behavior_state cfg st sig now_ts =
          (''idle'', (update_trackers st sig now_ts)\<lparr>last_state := Some ''idle''\<rparr>)"
    using assms m ma
    by (simp add: update_behavior_state_def decide_def no_face_elapsed_def Let_def
        update_trackers_last_state motion_active_def since_elapsed_def)
qed

theorem return_optimism_witness:
  "last_state st_away = Some ''away'' \<and> face_present sig_face_moving \<and> face_present sig_face_still
   \<and> 0 < active_confirm_seconds cfg_default \<and> 0 < idle_seconds cfg_default
   \<and> no_face_elapsed st_away sig_face_moving 1300 < real_of_int (away_seconds cfg_default)
   \<and> no_face_elapsed st_away sig_face_still 1300 < real_of_int (away_seconds cfg_default)
   \<and> motion_value sig_face_moving \<ge> motion_threshold sig_face_moving
   \<and> motion_value sig_face_still < motion_threshold sig_face_still
   \<and> fst (update_behavior_state cfg_default st_away sig_face_moving 1300) = ''active''
   \<and> fst (update_behavior_state cfg_default st_away sig_face_still 1300) = ''idle''"
proof -
  have a: "last_state st_away = Some ''away''" by (simp add: st_away_def)
  have f1: "face_present sig_face_moving" by (simp add: sig_face_moving_def)
  have f2: "face_present sig_face_still" by (simp add: sig_face_still_def)
  have w1: "0 < active_confirm_seconds cfg_default" by (simp add: cfg_default_def)
  have w2: "0 < idle_seconds cfg_default" by (simp add: cfg_default_def)
  have e1: "no_face_elapsed st_away sig_face_moving 1300 < real_of_int (away_seconds cfg_default)"
    by (simp add: no_face_elapsed_def update_trackers_def since_elapsed_def
        sig_face_moving_def cfg_default_def Let_def)
  have e2: "no_face_elapsed st_away sig_face_still 1300 < real_of_int (away_seconds cfg_default)"
    by (simp add: no_face_elapsed_def update_trackers_def since_elapsed_def
        sig_face_still_def cfg_default_def Let_def)
  have m1: "motion_value sig_face_moving \<ge> motion_threshold sig_face_moving"
    by (simp add: sig_face_moving_def)
  have m2: "motion_value sig_face_still < motion_threshold sig_face_still"
    by (simp add: sig_face_still_def)
  from return_optimism [OF a f1 w1 w2 e1] m1
  have r1: "fst (update_behavior_state cfg_default st_away sig_face_moving 1300) = ''active''"
    by simp
  from return_optimism [OF a f2 w1 w2 e2] m2
  have r2: "fst (update_behavior_state cfg_default st_away sig_face_still 1300) = ''idle''"
    by simp
  from a f1 f2 w1 w2 e1 e2 m1 m2 r1 r2 show ?thesis by blast
qed

text \<open>
  C7 (stickiness): on a tick with the face present on which neither the away rule nor the
  idle rule fires, a previous \<^verbatim>\<open>"active"\<close> is returned again when the motion value is
  below the threshold, and a previous \<^verbatim>\<open>"idle"\<close> is returned again when the active
  rule does not fire either. In both cases the stored state is the previous one.
\<close>

theorem stickiness:
  assumes "face_present sig"
    and "no_face_elapsed st sig now_ts < real_of_int (away_seconds cfg)"
    and "no_motion_elapsed st sig now_ts < real_of_int (idle_seconds cfg)"
  shows "(last_state st = Some ''active'' \<and> motion_value sig < motion_threshold sig \<longrightarrow>
            fst (update_behavior_state cfg st sig now_ts) = ''active''
          \<and> last_state (snd (update_behavior_state cfg st sig now_ts)) = Some ''active'')
       \<and> (last_state st = Some ''idle''
          \<and> motion_active_elapsed st sig now_ts < real_of_int (active_confirm_seconds cfg) \<longrightarrow>
            fst (update_behavior_state cfg st sig now_ts) = ''idle''
          \<and> last_state (snd (update_behavior_state cfg st sig now_ts)) = Some ''idle'')"
  using assms
  by (simp add: update_behavior_state_def decide_def no_face_elapsed_def no_motion_elapsed_def
      motion_active_elapsed_def Let_def update_trackers_last_state)

theorem stickiness_witness:
  "face_present sig_face_still \<and> face_present sig_face_moving
   \<and> no_face_elapsed st_active_quiet sig_face_still 1100 < real_of_int (away_seconds cfg_default)
   \<and> no_motion_elapsed st_active_quiet sig_face_still 1100 < real_of_int (idle_seconds cfg_default)
   \<and> last_state st_active_quiet = Some ''active''
   \<and> motion_value sig_face_still < motion_threshold sig_face_still
   \<and> fst (update_behavior_state cfg_default st_active_quiet sig_face_still 1100) = ''active''
   \<and> no_face_elapsed st_idle_moving sig_face_moving 1100 < real_of_int (away_seconds cfg_default)
   \<and> no_motion_elapsed st_idle_moving sig_face_moving 1100 < real_of_int (idle_seconds cfg_default)
   \<and> last_state st_idle_moving = Some ''idle''
   \<and> motion_active_elapsed st_idle_moving sig_face_moving 1100
       < real_of_int (active_confirm_seconds cfg_default)
   \<and> fst (update_behavior_state cfg_default st_idle_moving sig_face_moving 1100) = ''idle''"
proof -
  have f1: "face_present sig_face_still" by (simp add: sig_face_still_def)
  have f2: "face_present sig_face_moving" by (simp add: sig_face_moving_def)
  have a1: "no_face_elapsed st_active_quiet sig_face_still 1100
              < real_of_int (away_seconds cfg_default)"
    by (simp add: no_face_elapsed_def update_trackers_def since_elapsed_def
        sig_face_still_def cfg_default_def Let_def)
  have b1: "no_motion_elapsed st_active_quiet sig_face_still 1100
              < real_of_int (idle_seconds cfg_default)"
    by (simp add: no_motion_elapsed_def update_trackers_def since_elapsed_def or_now_def
        motion_active_def sig_face_still_def st_active_quiet_def cfg_default_def Let_def)
  have l1: "last_state st_active_quiet = Some ''active''" by (simp add: st_active_quiet_def)
  have m1: "motion_value sig_face_still < motion_threshold sig_face_still"
    by (simp add: sig_face_still_def)
  have a2: "no_face_elapsed st_idle_moving sig_face_moving 1100
              < real_of_int (away_seconds cfg_default)"
    by (simp add: no_face_elapsed_def update_trackers_def since_elapsed_def
        sig_face_moving_def cfg_default_def Let_def)
  have b2: "no_motion_elapsed st_idle_moving sig_face_moving 1100
              < real_of_int (idle_seconds cfg_default)"
    by (simp add: no_motion_elapsed_def update_trackers_def since_elapsed_def
        motion_active_def sig_face_moving_def cfg_default_def Let_def)
  have l2: "last_state st_idle_moving = Some ''idle''" by (simp add: st_idle_moving_def)
  have c2: "motion_active_elapsed st_idle_moving sig_face_moving 1100
              < real_of_int (active_confirm_seconds cfg_default)"
    by (simp add: motion_active_elapsed_def update_trackers_def since_elapsed_def or_now_def
        motion_active_def sig_face_moving_def st_idle_moving_def cfg_default_def Let_def)
  from stickiness [OF f1 a1 b1] l1 m1
  have r1: "fst (update_behavior_state cfg_default st_active_quiet sig_face_still 1100) = ''active''"
    by simp
  from stickiness [OF f2 a2 b2] l2 c2
  have r2: "fst (update_behavior_state cfg_default st_idle_moving sig_face_moving 1100) = ''idle''"
    by simp
  from f1 f2 a1 b1 l1 m1 r1 a2 b2 l2 c2 r2 show ?thesis by blast
qed

subsection \<open>The four since trackers\<close>

lemma or_now_unset: "or_now None now_ts = now_ts"
  by (simp add: or_now_def)

lemma or_now_set: "s \<noteq> 0 \<Longrightarrow> or_now (Some s) now_ts = s"
  by (simp add: or_now_def)

lemma or_now_zero: "or_now (Some 0) now_ts = now_ts"
  by (simp add: or_now_def)

text \<open>What each tracker holds after a tick, by the condition it tracks.\<close>

lemma face_present_since_tick:
  "face_present_since (update_trackers st sig now_ts) =
     (if face_present sig then Some (or_now (face_present_since st) now_ts) else None)"
  by (simp add: update_trackers_def Let_def)

lemma no_face_since_tick:
  "no_face_since (update_trackers st sig now_ts) =
     (if face_present sig then None else Some (or_now (no_face_since st) now_ts))"
  by (simp add: update_trackers_def Let_def)

lemma motion_active_since_tick:
  "motion_active_since (update_trackers st sig now_ts) =
     (if face_present sig \<and> motion_active sig
      then Some (or_now (motion_active_since st) now_ts) else None)"
  by (simp add: update_trackers_def Let_def)

lemma no_motion_since_tick:
  "no_motion_since (update_trackers st sig now_ts) =
     (if face_present sig \<and> \<not> motion_active sig
      then Some (or_now (no_motion_since st) now_ts) else None)"
  by (simp add: update_trackers_def Let_def)

lemma update_behavior_state_trackers:
  "face_present_since (snd (update_behavior_state cfg st sig now_ts))
     = face_present_since (update_trackers st sig now_ts)
   \<and> no_face_since (snd (update_behavior_state cfg st sig now_ts))
     = no_face_since (update_trackers st sig now_ts)
   \<and> motion_active_since (snd (update_behavior_state cfg st sig now_ts))
     = motion_active_since (update_trackers st sig now_ts)
   \<and> no_motion_since (snd (update_behavior_state cfg st sig now_ts))
     = no_motion_since (update_trackers st sig now_ts)"
  by (simp add: update_behavior_state_def decide_def Let_def split: option.splits)

text \<open>
  C6 (idempotent since tracking), as the code has it. The four trackers follow the
  conditions face present, face absent, face present with motion at or above the
  threshold, and face present with motion below the threshold. On a tick on which a
  tracker's condition holds, a tracker already holding a non-zero timestamp keeps it and an
  unset tracker takes the tick's \<^verbatim>\<open>now_ts\<close>; on a tick on which its condition does not
  hold the tracker is cleared to \<^verbatim>\<open>None\<close>. In particular both motion trackers are
  cleared whenever the face is absent.
\<close>

theorem since_tracking:
  "(face_present sig \<and> face_present_since st = Some s \<and> s \<noteq> 0 \<longrightarrow>
      face_present_since (snd (update_behavior_state cfg st sig now_ts)) = Some s)
   \<and> (face_present sig \<and> face_present_since st = None \<longrightarrow>
      face_present_since (snd (update_behavior_state cfg st sig now_ts)) = Some now_ts)
   \<and> (\<not> face_present sig \<longrightarrow>
      face_present_since (snd (update_behavior_state cfg st sig now_ts)) = None)
   \<and> (\<not> face_present sig \<and> no_face_since st = Some s \<and> s \<noteq> 0 \<longrightarrow>
      no_face_since (snd (update_behavior_state cfg st sig now_ts)) = Some s)
   \<and> (\<not> face_present sig \<and> no_face_since st = None \<longrightarrow>
      no_face_since (snd (update_behavior_state cfg st sig now_ts)) = Some now_ts)
   \<and> (face_present sig \<longrightarrow>
      no_face_since (snd (update_behavior_state cfg st sig now_ts)) = None)
   \<and> (face_present sig \<and> motion_active sig \<and> motion_active_since st = Some s \<and> s \<noteq> 0 \<longrightarrow>
      motion_active_since (snd (update_behavior_state cfg st sig now_ts)) = Some s)
   \<and> (face_present sig \<and> motion_active sig \<and> motion_active_since st = None \<longrightarrow>
      motion_active_since (snd (update_behavior_state cfg st sig now_ts)) = Some now_ts)
   \<and> (\<not> (face_present sig \<and> motion_active sig) \<longrightarrow>
      motion_active_since (snd (update_behavior_state cfg st sig now_ts)) = None)
   \<and> (face_present sig \<and> \<not> motion_active sig \<and> no_motion_since st = Some s \<and> s \<noteq> 0 \<longrightarrow>
      no_motion_since (snd (update_behavior_state cfg st sig now_ts)) = Some s)
   \<and> (face_present sig \<and> \<not> motion_active sig \<and> no_motion_since st = None \<longrightarrow>
      no_motion_since (snd (update_behavior_state cfg st sig now_ts)) = Some now_ts)
   \<and> (\<not> (face_present sig \<and> \<not> motion_active sig) \<longrightarrow>
      no_motion_since (snd (update_behavior_state cfg st sig now_ts)) = None)"
  by (simp add: update_behavior_state_trackers face_present_since_tick no_face_since_tick
      motion_active_since_tick no_motion_since_tick or_now_set or_now_unset)

text \<open>
  Instances. Face present and moving since 1000 and 1090, tick at 1100 with the same
  signals: both timestamps are kept. Face lost since 1000, tick at 1120 without a face:
  the timestamp is kept. Away since 1000, tick at 1300 with the face back and no motion:
  the face-present and no-motion trackers start at 1300 and the no-face tracker is
  cleared. Face present and still since 1090, tick at 1100 with the same signals: the
  no-motion timestamp is kept. Face present and moving, tick at 1100 without a face: the
  no-face tracker starts at 1100 and the other three are cleared.
\<close>

theorem since_tracking_witness:
  "face_present sig_face_moving \<and> motion_active sig_face_moving
   \<and> face_present_since st_idle_moving = Some 1000 \<and> motion_active_since st_idle_moving = Some 1090
   \<and> face_present_since (snd (update_behavior_state cfg_default st_idle_moving sig_face_moving 1100))
       = Some 1000
   \<and> motion_active_since (snd (update_behavior_state cfg_default st_idle_moving sig_face_moving 1100))
       = Some 1090
   \<and> \<not> face_present sig_no_face_moving \<and> no_face_since st_face_lost = Some 1000
   \<and> no_face_since (snd (update_behavior_state cfg_default st_face_lost sig_no_face_moving 1120))
       = Some 1000
   \<and> face_present sig_face_still \<and> \<not> motion_active sig_face_still
   \<and> face_present_since st_away = None \<and> no_motion_since st_away = None
   \<and> face_present_since (snd (update_behavior_state cfg_default st_away sig_face_still 1300))
       = Some 1300
   \<and> no_motion_since (snd (update_behavior_state cfg_default st_away sig_face_still 1300))
       = Some 1300
   \<and> no_face_since (snd (update_behavior_state cfg_default st_away sig_face_still 1300)) = None
   \<and> no_motion_since st_active_quiet = Some 1090
   \<and> no_motion_since (snd (update_behavior_state cfg_default st_active_quiet sig_face_still 1100))
       = Some 1090
   \<and> no_face_since st_idle_moving = None
   \<and> no_face_since (snd (update_behavior_state cfg_default st_idle_moving sig_no_face_moving 1100))
       = Some 1100
   \<and> face_present_since (snd (update_behavior_state cfg_default st_idle_moving sig_no_face_moving 1100))
       = None
   \<and> motion_active_since (snd (update_behavior_state cfg_default st_idle_moving sig_no_face_moving 1100))
       = None"
proof -
  have fm: "face_present sig_face_moving \<and> motion_active sig_face_moving"
    by (simp add: sig_face_moving_def motion_active_def)
  have fs: "face_present sig_face_still \<and> \<not> motion_active sig_face_still"
    by (simp add: sig_face_still_def motion_active_def)
  have nf: "\<not> face_present sig_no_face_moving"
    by (simp add: sig_no_face_moving_def)
  have im: "face_present_since st_idle_moving = Some 1000
            \<and> motion_active_since st_idle_moving = Some 1090
            \<and> no_face_since st_idle_moving = None"
    by (simp add: st_idle_moving_def)
  have fl: "no_face_since st_face_lost = Some 1000"
    by (simp add: st_face_lost_def)
  have aw: "face_present_since st_away = None \<and> no_motion_since st_away = None"
    by (simp add: st_away_def)
  have aq: "no_motion_since st_active_quiet = Some 1090"
    by (simp add: st_active_quiet_def)
  from since_tracking [of sig_face_moving st_idle_moving 1000 cfg_default 1100] fm im
  have r1: "face_present_since
              (snd (update_behavior_state cfg_default st_idle_moving sig_face_moving 1100))
              = Some 1000"
    by simp
  from since_tracking [of sig_face_moving st_idle_moving 1090 cfg_default 1100] fm im
  have r2: "motion_active_since
              (snd (update_behavior_state cfg_default st_idle_moving sig_face_moving 1100))
              = Some 1090"
    by simp
  from since_tracking [of sig_no_face_moving st_face_lost 1000 cfg_default 1120] nf fl
  have r3: "no_face_since
              (snd (update_behavior_state cfg_default st_face_lost sig_no_face_moving 1120))
              = Some 1000"
    by simp
  from since_tracking [of sig_face_still st_away 1 cfg_default 1300] fs aw
  have r4: "face_present_since (snd (update_behavior_state cfg_default st_away sig_face_still 1300))
              = Some 1300
            \<and> no_motion_since (snd (update_behavior_state cfg_default st_away sig_face_still 1300))
              = Some 1300
            \<and> no_face_since (snd (update_behavior_state cfg_default st_away sig_face_still 1300))
              = None"
    by simp
  from since_tracking [of sig_face_still st_active_quiet 1090 cfg_default 1100] fs aq
  have r5: "no_motion_since
              (snd (update_behavior_state cfg_default st_active_quiet sig_face_still 1100))
              = Some 1090"
    by simp
  from since_tracking [of sig_no_face_moving st_idle_moving 1 cfg_default 1100] nf im
  have r6: "no_face_since
              (snd (update_behavior_state cfg_default st_idle_moving sig_no_face_moving 1100))
              = Some 1100
            \<and> face_present_since
              (snd (update_behavior_state cfg_default st_idle_moving sig_no_face_moving 1100))
              = None
            \<and> motion_active_since
              (snd (update_behavior_state cfg_default st_idle_moving sig_no_face_moving 1100))
              = None"
    by simp
  from fm fs nf im fl aw aq r1 r2 r3 r4 r5 r6 show ?thesis by blast
qed

text \<open>
  C6 as stated fails in two ways. First, the motion trackers follow the motion condition
  only while the face is present: after a first sighting at 100 with motion above the
  threshold, a tick at 110 with the face absent and the same motion value (the motion
  condition unchanged) clears \<^verbatim>\<open>motion_active_since\<close>. Second, at the timestamp 0: a
  first sighting at \<^verbatim>\<open>now_ts = 0.0\<close> sets \<^verbatim>\<open>face_present_since\<close> and
  \<^verbatim>\<open>motion_active_since\<close> to 0.0, and the next tick at 10.0 with the same signals moves
  both to 10.0, because \<^verbatim>\<open>since or now_ts\<close> takes a stored 0.0 for unset.
\<close>

theorem since_tracking_counterexample:
  "motion_value sig_face_moving \<ge> motion_threshold sig_face_moving
   \<and> motion_value sig_no_face_moving \<ge> motion_threshold sig_no_face_moving
   \<and> motion_active_since
       (snd (update_behavior_state cfg_default BehaviorState_init sig_face_moving 100))
     = Some 100
   \<and> motion_active_since
       (snd (update_behavior_state cfg_default
              (snd (update_behavior_state cfg_default BehaviorState_init sig_face_moving 100))
              sig_no_face_moving 110))
     = None
   \<and> face_present_since (snd (update_behavior_state cfg_default BehaviorState_init sig_face_moving 0))
     = Some 0
   \<and> motion_active_since (snd (update_behavior_state cfg_default BehaviorState_init sig_face_moving 0))
     = Some 0
   \<and> face_present_since
       (snd (update_behavior_state cfg_default
              (snd (update_behavior_state cfg_default BehaviorState_init sig_face_moving 0))
              sig_face_moving 10))
     = Some 10
   \<and> motion_active_since
       (snd (update_behavior_state cfg_default
              (snd (update_behavior_state cfg_default BehaviorState_init sig_face_moving 0))
              sig_face_moving 10))
     = Some 10"
  by (simp add: update_behavior_state_trackers face_present_since_tick motion_active_since_tick
      or_now_def motion_active_def BehaviorState_init_def sig_face_moving_def
      sig_no_face_moving_def)

subsection \<open>Motion EMA\<close>

text \<open>
  C8 (motion EMA update): when a previous centre exists, one position sample replaces the
  EMA by \<^verbatim>\<open>0.7 * ema + 0.3 * sample\<close>, the sample being the Euclidean distance between
  the new and the previous centre; when no previous centre exists the EMA is left as it
  is, so the first sighting of a fresh \<^verbatim>\<open>SubjectState\<close> leaves it at 0. In both cases
  the new centre is stored.
\<close>

theorem motion_ema_update:
  "(last_center st = Some (px, py) \<longrightarrow>
      motion_ema (update_motion_ema st (cx, cy))
        = 0.7 * motion_ema st + 0.3 * sqrt ((cx - px)\<^sup>2 + (cy - py)\<^sup>2))
   \<and> (last_center st = None \<longrightarrow>
      motion_ema (update_motion_ema st (cx, cy)) = motion_ema st)
   \<and> motion_ema (update_motion_ema SubjectState_init (cx, cy)) = 0
   \<and> last_center (update_motion_ema st (cx, cy)) = Some (cx, cy)"
  by (simp add: update_motion_ema_def center_distance_def SubjectState_init_def Let_def
      split: option.splits)

theorem motion_ema_update_witness:
  "last_center st_seen_at_origin = Some (0, 0)
   \<and> motion_ema (update_motion_ema st_seen_at_origin (3, 4)) = 11 / 5
   \<and> last_center SubjectState_init = None
   \<and> motion_ema (update_motion_ema SubjectState_init (3, 4)) = motion_ema SubjectState_init"
proof -
  have c: "last_center st_seen_at_origin = Some (0, 0)"
    by (simp add: st_seen_at_origin_def)
  have n: "last_center SubjectState_init = None"
    by (simp add: SubjectState_init_def)
  have s: "sqrt ((3 - 0)\<^sup>2 + (4 - 0)\<^sup>2) = (5::real)"
    by (rule real_sqrt_unique) simp_all
  have e: "motion_ema st_seen_at_origin = 1"
    by (simp add: st_seen_at_origin_def)
  from motion_ema_update [of st_seen_at_origin 0 0 3 4] c s e
  have r1: "motion_ema (update_motion_ema st_seen_at_origin (3, 4)) = 11 / 5"
    by simp
  from motion_ema_update [of SubjectState_init 0 0 3 4] n
  have r2: "motion_ema (update_motion_ema SubjectState_init (3, 4)) = motion_ema SubjectState_init"
    by simp
  from c n r1 r2 show ?thesis by blast
qed


section \<open>Properties of the compliance engine\<close>

subsection \<open>The zone loop\<close>

text \<open>
  Evaluating a zone reads and writes the cache at that zone's id only, so with pairwise
  distinct zone ids every zone of a tick is evaluated on the cache entry the tick started
  with.
\<close>

lemma evaluate_zone_other:
  "k \<noteq> zone_id z \<Longrightarrow> snd (evaluate_zone rt gt tal now z c) k = c k"
  by (simp add: evaluate_zone_def Let_def split: option.splits)

lemma evaluate_zone_local:
  assumes "c (zone_id z) = c' (zone_id z)"
  shows "fst (evaluate_zone rt gt tal now z c) = fst (evaluate_zone rt gt tal now z c')
       \<and> snd (evaluate_zone rt gt tal now z c) (zone_id z)
           = snd (evaluate_zone rt gt tal now z c') (zone_id z)"
  using assms by (simp add: evaluate_zone_def Let_def split: option.splits)

lemma zones_loop_length: "length (fst (zones_loop ev zs c)) = length zs"
  by (induction zs arbitrary: c) (simp_all add: Let_def)

lemma zones_loop_other:
  "k \<notin> zone_id ` set zs \<Longrightarrow>
     snd (zones_loop (evaluate_zone rt gt tal now) zs c) k = c k"
  by (induction zs arbitrary: c) (simp_all add: Let_def evaluate_zone_other)

lemma zones_loop_nth:
  assumes "distinct (map zone_id zs)" and "i < length zs"
  shows "fst (zones_loop (evaluate_zone rt gt tal now) zs c) ! i
           = fst (evaluate_zone rt gt tal now (zs ! i) c)
       \<and> snd (zones_loop (evaluate_zone rt gt tal now) zs c) (zone_id (zs ! i))
           = snd (evaluate_zone rt gt tal now (zs ! i) c) (zone_id (zs ! i))"
  using assms
proof (induction zs arbitrary: c i)
  case Nil
  then show ?case by simp
next
  case (Cons z zs)
  let ?c1 = "snd (evaluate_zone rt gt tal now z c)"
  show ?case
  proof (cases i)
    case 0
    from Cons.prems(1) have "zone_id z \<notin> zone_id ` set zs" by simp
    then have "snd (zones_loop (evaluate_zone rt gt tal now) zs ?c1) (zone_id z) = ?c1 (zone_id z)"
      by (rule zones_loop_other)
    with 0 show ?thesis by (simp add: Let_def)
  next
    case (Suc j)
    with Cons.prems have j: "j < length zs" and d: "distinct (map zone_id zs)" by simp_all
    from j have "zone_id (zs ! j) \<in> zone_id ` set zs" by simp
    moreover from Cons.prems(1) have "zone_id z \<notin> zone_id ` set zs" by simp
    ultimately have ne: "zone_id (zs ! j) \<noteq> zone_id z" by metis
    then have same: "?c1 (zone_id (zs ! j)) = c (zone_id (zs ! j))"
      by (rule evaluate_zone_other)
    have loc: "fst (evaluate_zone rt gt tal now (zs ! j) ?c1)
                 = fst (evaluate_zone rt gt tal now (zs ! j) c)
             \<and> snd (evaluate_zone rt gt tal now (zs ! j) ?c1) (zone_id (zs ! j))
                 = snd (evaluate_zone rt gt tal now (zs ! j) c) (zone_id (zs ! j))"
      using same by (rule evaluate_zone_local)
    from Cons.IH [OF d j, of ?c1] loc
    show ?thesis using Suc by (simp add: Let_def)
  qed
qed

text \<open>Without the distinctness: the i-th report is the zone evaluated on some cache.\<close>

lemma zones_loop_nth_some:
  "i < length zs \<Longrightarrow> \<exists>c'. fst (zones_loop ev zs c) ! i = fst (ev (zs ! i) c')"
proof (induction zs arbitrary: c i)
  case Nil
  then show ?case by simp
next
  case (Cons z zs)
  show ?case
  proof (cases i)
    case 0
    then show ?thesis by (auto simp: Let_def)
  next
    case (Suc j)
    with Cons.prems have "j < length zs" by simp
    from Cons.IH [OF this, of "snd (ev z c)"] Suc show ?thesis by (simp add: Let_def)
  qed
qed

lemma zones_out_length:
  "length (zones_out (evaluate_zone_compliance model presence cache now)) = length (zones model)"
  by (simp add: zones_out_def evaluate_zone_compliance_def Let_def zones_loop_length)

lemma events_out_length:
  "length (events_out (evaluate_zone_compliance model presence cache now)) = length (zones model)"
  by (simp add: events_out_def evaluate_zone_compliance_def Let_def zones_loop_length)

lemma tick_zone:
  assumes "distinct (map zone_id (zones model))" and "i < length (zones model)"
  shows "zones_out (evaluate_zone_compliance model presence cache now) ! i
           = fst (fst (evaluate_zone (roles_by_id model) (regulations_by_type model)
                         (tally_presence model presence) now (zones model ! i) cache))
       \<and> cache_out (evaluate_zone_compliance model presence cache now) (zone_id (zones model ! i))
           = snd (evaluate_zone (roles_by_id model) (regulations_by_type model)
                    (tally_presence model presence) now (zones model ! i) cache)
               (zone_id (zones model ! i))"
  using zones_loop_nth [OF assms, of "roles_by_id model" "regulations_by_type model"
      "tally_presence model presence" now cache] assms(2)
  by (simp add: zones_out_def cache_out_def evaluate_zone_compliance_def Let_def zones_loop_length)

subsection \<open>One zone\<close>

lemma zone_no_regulation:
  "regulation_of model z = None \<Longrightarrow>
     fst (evaluate_zone (roles_by_id model) (regulations_by_type model) tal now z c)
       = zone_result (zone_id z) None ''UNKNOWN'' [''no_regulation''] now ''info'' now"
  by (simp add: evaluate_zone_def regulation_of_def Let_def split: option.splits)

lemma zone_present:
  assumes "regulation_of model z = Some reg"
    and "zone_last_seen model presence (zone_id z) = Some seen"
  shows "out_state (fst (fst (evaluate_zone (roles_by_id model) (regulations_by_type model)
                                (tally_presence model presence) now z c)))
           = escalate reg (computed_state_of model presence z reg) now
               (hysteresis_since (c (zone_id z)) (computed_state_of model presence z reg) now)
       \<and> out_since (fst (fst (evaluate_zone (roles_by_id model) (regulations_by_type model)
                                (tally_presence model presence) now z c)))
           = hysteresis_since (c (zone_id z)) (computed_state_of model presence z reg) now"
  using assms
  by (simp add: evaluate_zone_def regulation_of_def zone_last_seen_def computed_state_of_def
      zone_counts_def zone_result_def Let_def split: option.splits)

text \<open>A zone with a regulation caches the state and the since value it reports.\<close>

lemma zone_cached:
  assumes "regulation_of model z = Some reg"
  shows "\<exists>seen. snd (evaluate_zone (roles_by_id model) (regulations_by_type model) tal now z c)
                  (zone_id z)
           = Some \<lparr>state = out_state (fst (fst (evaluate_zone (roles_by_id model)
                                                 (regulations_by_type model) tal now z c))),
                   since = out_since (fst (fst (evaluate_zone (roles_by_id model)
                                                 (regulations_by_type model) tal now z c))),
                   last_seen = seen\<rparr>"
  using assms
  by (simp add: evaluate_zone_def regulation_of_def zone_result_def Let_def split: option.splits)





subsection \<open>The presence tally\<close>

lemma tally_record_seen:
  "snd (tally_record (camera_to_zone model) p acc) zid
     = (if maps_to_zone model zid p then last_seen_ts p else snd acc zid)"
  by (auto simp: tally_record_def maps_to_zone_def Let_def split: option.splits)

text \<open>
  The last-seen entry of a zone is the \<^verbatim>\<open>last_seen_ts\<close> of the last record of the
  snapshot, in snapshot order, that is counted for the zone.
\<close>

lemma zone_last_seen_last_record:
  "zone_last_seen model presence zid
     = (case rev (filter (maps_to_zone model zid) presence) of
          [] \<Rightarrow> None
        | p # _ \<Rightarrow> last_seen_ts p)"
proof (induction presence rule: rev_induct)
  case Nil
  then show ?case by (simp add: zone_last_seen_def tally_presence_def)
next
  case (snoc p ps)
  then show ?case
    by (simp add: zone_last_seen_def tally_presence_def tally_record_seen)
qed


subsection \<open>Facts about the example policy\<close>

lemma site_zones_distinct: "distinct (map zone_id (zones site_model))"
  by (simp add: site_model_def)

lemma site_zones_length: "length (zones site_model) = 3"
  by (simp add: site_model_def)

lemma lobby_zone_type: "zone_type lobby_regulation = ''lobby''"
  by (simp add: lobby_regulation_def)

lemma site_lobby_regulated: "regulation_of site_model (zones site_model ! 2) = Some lobby_regulation"
  by (simp add: regulation_of_def regulations_by_type_def site_model_def lobby_zone_type)

lemma site_dock_unregulated: "regulation_of site_model (zones site_model ! 0) = None"
  by (simp add: regulation_of_def regulations_by_type_def site_model_def lobby_zone_type)

lemma site_lobby_id: "zone_id (zones site_model ! 2) = ''lobby''"
  by (simp add: site_model_def)

lemma site_lobby_seen: "zone_last_seen site_model (clerk_in_lobby t) ''lobby'' = Some t"
  by (simp add: zone_last_seen_def tally_presence_def tally_record_def camera_to_zone_def
      site_model_def clerk_in_lobby_def role_from_payload_def Let_def)

lemma site_lobby_understaffed:
  "computed_state_of site_model (clerk_in_lobby t) (zones site_model ! 2) lobby_regulation
     = ''UNDERSTAFFED''"
  by (simp add: computed_state_of_def compute_violations_def role_violations_def required_step_def
      startswith_def roles_by_id_def zone_counts_def tally_presence_def tally_record_def
      camera_to_zone_def site_model_def clerk_in_lobby_def lobby_regulation_def
      role_from_payload_def Let_def)


subsection \<open>Hysteresis\<close>

text \<open>
  C2 (compliance hysteresis), as the code has it: for a zone with a regulation (zone ids
  pairwise distinct) that has presence records on the second of two consecutive ticks, the
  since value emitted on the second tick is the one emitted on the first tick when the state
  computed on the second tick equals the state emitted (and cached) on the first tick, and
  is the second tick's timestamp otherwise.
\<close>

theorem since_hysteresis:
  assumes "distinct (map zone_id (zones model))" and "i < length (zones model)"
    and "regulation_of model (zones model ! i) = Some reg"
    and "zone_last_seen model presence2 (zone_id (zones model ! i)) = Some seen"
  shows "out_since (zones_out (evaluate_zone_compliance model presence2
                      (cache_out (evaluate_zone_compliance model presence1 cache0 now1)) now2) ! i)
           = (if computed_state_of model presence2 (zones model ! i) reg
                   = out_state (zones_out (evaluate_zone_compliance model presence1 cache0 now1) ! i)
              then out_since (zones_out (evaluate_zone_compliance model presence1 cache0 now1) ! i)
              else now2)"
proof -
  let ?z = "zones model ! i"
  let ?t1 = "evaluate_zone_compliance model presence1 cache0 now1"
  let ?e1 = "evaluate_zone (roles_by_id model) (regulations_by_type model)
               (tally_presence model presence1) now1 ?z cache0"
  from tick_zone [OF assms(1,2), of presence1 cache0 now1]
  have r1: "zones_out ?t1 ! i = fst (fst ?e1)"
    and c1: "cache_out ?t1 (zone_id ?z) = snd ?e1 (zone_id ?z)" by simp_all
  from zone_cached [OF assms(3), of "tally_presence model presence1" now1 cache0]
  obtain ls where "snd ?e1 (zone_id ?z)
      = Some \<lparr>state = out_state (fst (fst ?e1)), since = out_since (fst (fst ?e1)), last_seen = ls\<rparr>"
    by blast
  with r1 c1 have cached: "cache_out ?t1 (zone_id ?z)
      = Some \<lparr>state = out_state (zones_out ?t1 ! i), since = out_since (zones_out ?t1 ! i),
              last_seen = ls\<rparr>"
    by simp
  from tick_zone [OF assms(1,2), of presence2 "cache_out ?t1" now2]
    zone_present [OF assms(3,4), of now2 "cache_out ?t1"]
  have "out_since (zones_out (evaluate_zone_compliance model presence2 (cache_out ?t1) now2) ! i)
          = hysteresis_since (cache_out ?t1 (zone_id ?z))
              (computed_state_of model presence2 ?z reg) now2"
    by simp
  with cached show ?thesis by (auto simp: hysteresis_since_def)
qed

text \<open>
  Instance: the lobby at the ticks at 0 s and 120 s is UNDERSTAFFED both times and keeps
  since = 0; at the tick at 131 s after the escalated tick at 121 s the computed state
  differs from the emitted one and since is reset to 131 s.
\<close>

theorem since_hysteresis_witness:
  "distinct (map zone_id (zones site_model)) \<and> 2 < length (zones site_model)
   \<and> regulation_of site_model (zones site_model ! 2) = Some lobby_regulation
   \<and> zone_last_seen site_model (clerk_in_lobby 120000000) (zone_id (zones site_model ! 2))
       = Some 120000000
   \<and> zone_last_seen site_model (clerk_in_lobby 131000000) (zone_id (zones site_model ! 2))
       = Some 131000000
   \<and> out_since (zones_out tick_120 ! 2) = 0
   \<and> out_since (zones_out tick_131 ! 2) = 131000000"
proof -
  have len: "2 < length (zones site_model)" by (simp add: site_zones_length)
  have s1: "zone_last_seen site_model (clerk_in_lobby 120000000) (zone_id (zones site_model ! 2))
              = Some 120000000"
    by (simp add: site_lobby_id site_lobby_seen)
  have s2: "zone_last_seen site_model (clerk_in_lobby 131000000) (zone_id (zones site_model ! 2))
              = Some 131000000"
    by (simp add: site_lobby_id site_lobby_seen)
  have a: "out_state (zones_out tick_0 ! 2) = ''UNDERSTAFFED'' \<and> out_since (zones_out tick_0 ! 2) = 0"
    by code_simp
  have b: "out_state (zones_out tick_121 ! 2) = ''CRITICAL_VIOLATION''"
    by code_simp
  from since_hysteresis [OF site_zones_distinct len site_lobby_regulated s1,
      of "clerk_in_lobby 0" Map.empty 0 120000000] a
  have r1: "out_since (zones_out tick_120 ! 2) = 0"
    by (simp add: tick_120_def tick_0_def site_lobby_understaffed)
  from since_hysteresis [OF site_zones_distinct len site_lobby_regulated s2,
      of "clerk_in_lobby 121000000" "cache_out tick_0" 121000000 131000000] b
  have r2: "out_since (zones_out tick_131 ! 2) = 131000000"
    by (simp add: tick_131_def tick_121_def site_lobby_understaffed)
  from site_zones_distinct len site_lobby_regulated s1 s2 r1 r2 show ?thesis by blast
qed

text \<open>
  C2 as stated fails on the example policy. The dock (no regulation) reports UNKNOWN at
  121 s and at 131 s with since = 121 s and since = 131 s. The vault (regulated, no
  presence) goes from INITIALIZING at 0 s to UNKNOWN at 121 s and keeps since = 0. The
  lobby has the same computed state UNDERSTAFFED at 121 s and at 131 s, yet since goes
  from 0 to 131 s, because the tick at 121 s cached the escalated state.
\<close>

theorem since_hysteresis_counterexample:
  "out_state (zones_out tick_121 ! 0) = ''UNKNOWN'' \<and> out_state (zones_out tick_131 ! 0) = ''UNKNOWN''
   \<and> out_since (zones_out tick_121 ! 0) = 121000000 \<and> out_since (zones_out tick_131 ! 0) = 131000000
   \<and> out_state (zones_out tick_0 ! 1) = ''INITIALIZING'' \<and> out_state (zones_out tick_121 ! 1) = ''UNKNOWN''
   \<and> out_since (zones_out tick_0 ! 1) = 0 \<and> out_since (zones_out tick_121 ! 1) = 0
   \<and> computed_state_of site_model (clerk_in_lobby 121000000) (zones site_model ! 2) lobby_regulation
       = ''UNDERSTAFFED''
   \<and> computed_state_of site_model (clerk_in_lobby 131000000) (zones site_model ! 2) lobby_regulation
       = ''UNDERSTAFFED''
   \<and> out_since (zones_out tick_121 ! 2) = 0 \<and> out_since (zones_out tick_131 ! 2) = 131000000"
  by code_simp

subsection \<open>Escalation\<close>




subsection \<open>Zones without a regulation\<close>

text \<open>
  C4 (no-regulation degradation), as the code has it: for a zone whose type has no
  regulation the tick reports the state UNKNOWN whatever the cache holds, with the
  violations list \<^verbatim>\<open>["no_regulation"]\<close>, severity \<^verbatim>\<open>info\<close>, no regulation id and
  since equal to the tick's timestamp, and emits the event with the same content. The
  model is a total function: no branch of the zone loop raises on a well-typed policy.
\<close>

theorem no_regulation_report:
  assumes "i < length (zones model)"
    and "regulation_of model (zones model ! i) = None"
  shows "zones_out (evaluate_zone_compliance model presence cache now) ! i
           = \<lparr>out_zone_id = zone_id (zones model ! i), out_regulation_id = None,
              out_state = ''UNKNOWN'', out_violations = [''no_regulation''], out_since = now,
              out_severity = ''info''\<rparr>
       \<and> events_out (evaluate_zone_compliance model presence cache now) ! i
           = event_payload (zone_id (zones model ! i)) None ''UNKNOWN'' [''no_regulation'']
               now ''info'' now"
proof -
  let ?ev = "evaluate_zone (roles_by_id model) (regulations_by_type model)
               (tally_presence model presence) now"
  from zones_loop_nth_some [OF assms(1), of ?ev cache]
  obtain c' where "fst (zones_loop ?ev (zones model) cache) ! i = fst (?ev (zones model ! i) c')"
    by blast
  with zone_no_regulation [OF assms(2), of "tally_presence model presence" now c']
  have "fst (zones_loop ?ev (zones model) cache) ! i
          = zone_result (zone_id (zones model ! i)) None ''UNKNOWN'' [''no_regulation''] now
              ''info'' now"
    by simp
  with assms(1) show ?thesis
    by (simp add: zones_out_def events_out_def evaluate_zone_compliance_def Let_def
        zones_loop_length zone_result_def)
qed

theorem no_regulation_report_witness:
  "0 < length (zones site_model) \<and> regulation_of site_model (zones site_model ! 0) = None
   \<and> out_state (zones_out tick_121 ! 0) = ''UNKNOWN''
   \<and> out_violations (zones_out tick_121 ! 0) = [''no_regulation'']
   \<and> out_severity (zones_out tick_121 ! 0) = ''info''"
proof -
  have len: "0 < length (zones site_model)" by (simp add: site_zones_length)
  from no_regulation_report [OF len site_dock_unregulated,
      of "clerk_in_lobby 121000000" "cache_out tick_0" 121000000]
  have "out_state (zones_out tick_121 ! 0) = ''UNKNOWN''
        \<and> out_violations (zones_out tick_121 ! 0) = [''no_regulation'']
        \<and> out_severity (zones_out tick_121 ! 0) = ''info''"
    by (simp add: tick_121_def)
  with len site_dock_unregulated show ?thesis by blast
qed

text \<open>
  C4 as stated fails: on the first tick, with an empty cache, the dock (no regulation) is
  reported UNKNOWN, not INITIALIZING, and its violations list is not empty.
\<close>

theorem no_regulation_counterexample:
  "regulation_of site_model (zones site_model ! 0) = None
   \<and> out_state (zones_out tick_0 ! 0) = ''UNKNOWN''
   \<and> out_state (zones_out tick_0 ! 0) \<noteq> ''INITIALIZING''
   \<and> out_violations (zones_out tick_0 ! 0) = [''no_regulation'']
   \<and> out_violations (zones_out tick_0 ! 0) \<noteq> []"
proof -
  have "out_state (zones_out tick_0 ! 0) = ''UNKNOWN''
        \<and> out_violations (zones_out tick_0 ! 0) = [''no_regulation'']"
    by code_simp
  with site_dock_unregulated show ?thesis by simp
qed

subsection \<open>The last-seen timestamp of a zone\<close>

text \<open>
  C9 (most recent last-seen per zone), on a snapshot in the order
  \<^verbatim>\<open>get_current_presence\<close> returns (most recent first): both records are counted for
  the lobby, the most recent \<^verbatim>\<open>last_seen_ts\<close> is 20 s, and the engine keeps 10 s, the
  value of the last record. On the reversed snapshot it keeps 20 s.
\<close>

theorem zone_last_seen_is_last_record:
  "maps_to_zone site_model ''lobby'' (two_in_lobby ! 0)
   \<and> maps_to_zone site_model ''lobby'' (two_in_lobby ! 1)
   \<and> last_seen_ts (two_in_lobby ! 0) = Some 20000000
   \<and> last_seen_ts (two_in_lobby ! 1) = Some 10000000
   \<and> zone_last_seen site_model two_in_lobby ''lobby'' = Some 10000000
   \<and> zone_last_seen site_model (rev two_in_lobby) ''lobby'' = Some 20000000"
  by (simp add: zone_last_seen_last_record maps_to_zone_def camera_to_zone_def site_model_def
      two_in_lobby_def)

subsection \<open>After an escalation\<close>





end
